theory Spec2Isabelle
  imports Complex_Main
begin

section \<open>The data frame of \<open>clean_data\<close>\<close>

text \<open>
  \<open>clean_data\<close> (src/insurance_etl_dag.py, lines 17-88) reads a semicolon-delimited file
  into a pandas DataFrame, rewrites some of its columns one statement after the other and
  writes the frame as a Parquet file. The model starts at the loaded frame (line 32) and
  ends at the frame handed to \<open>to_parquet\<close> (line 84): \<open>Inr\<close> carries the frame that is
  written, \<open>Inl\<close> the exception that ends the call before anything is written.

  A frame is column-oriented, as pandas has it. Only the columns the function touches are
  kept. The pandas and Python library calls are modelled by what they do on one column:
  \<^item> a null cell (\<open>NaN\<close>, \<open>NaT\<close>) is \<open>None\<close>;
  \<^item> \<open>Length\<close> is a \<open>float64\<close> column; its values are idealised as real numbers, so that
    rounding and the infinities of IEEE arithmetic are outside the model;
  \<^item> \<open>Distribution_channel\<close> holds Python objects: integers, text and \<open>NaN\<close> (the
    column is normally numeric text, so cells with a fractional part are left out);
  \<^item> \<open>Lapse\<close> is an \<open>int64\<close> column;
  \<^item> a date column is an \<open>object\<close> column of text as \<open>read_csv\<close> delivers it, or a
    \<open>datetime64\<close> column, timezone-naive or tagged UTC; a timestamp is its wall-clock
    value in nanoseconds since 1970-01-01T00:00:00;
  \<^item> the six date columns are kept in a table indexed by their names, since the source
    loops over the names;
  \<^item> pandas' date parser is a parameter of the model (see \<open>to_datetime\<close>); it reads
    timezone-naive timestamps, so text that carries a zone offset is left out;
  \<^item> the in-place fills of lines 36 and 41 update the frame (pandas without
    copy-on-write, as the Airflow 2 runtime of this DAG has it).
\<close>

datatype error = ValueError | OverflowError | TypeError

datatype pyval = PInt int | PStr string | PNaN

datatype tzinfo = Naive | UTC

datatype date_col =
    ObjectCol "string option list"
  | DatetimeCol tzinfo "int option list"

datatype date_column =
    Date_start_contract
  | Date_last_renewal
  | Date_next_renewal
  | Date_birth
  | Date_driving_licence
  | Date_lapse

record frame =
  Type_fuel :: "string option list"
  Length :: "real option list"
  Distribution_channel :: "pyval list"
  dates :: "date_column \<Rightarrow> date_col"
  Lapse :: "int list"
  flag_invalid_start_vs_last :: "int list option"

text \<open>Line 51: the names the loop of line 53 runs over, in the source's order.\<close>

definition date_columns :: "date_column list" where
  "date_columns =
     [Date_start_contract, Date_last_renewal, Date_next_renewal,
      Date_birth, Date_driving_licence, Date_lapse]"

fun col_len :: "date_col \<Rightarrow> nat" where
  "col_len (ObjectCol xs) = length xs"
| "col_len (DatetimeCol tz xs) = length xs"

definition nrows :: "frame \<Rightarrow> nat" where
  "nrows df = length (Lapse df)"

text \<open>Every column of a DataFrame has the frame's number of rows.\<close>

definition well_formed :: "frame \<Rightarrow> bool" where
  "well_formed df \<longleftrightarrow>
     length (Type_fuel df) = nrows df \<and>
     length (Length df) = nrows df \<and>
     length (Distribution_channel df) = nrows df \<and>
     list_all (\<lambda>c. col_len (dates df c) = nrows df) date_columns \<and>
     (case flag_invalid_start_vs_last df of None \<Rightarrow> True | Some fl \<Rightarrow> length fl = nrows df)"


definition and_then :: "error + 'a \<Rightarrow> ('a \<Rightarrow> error + 'b) \<Rightarrow> error + 'b" where
  "and_then m f = (case m of Inl e \<Rightarrow> Inl e | Inr x \<Rightarrow> f x)"

section \<open>Missing values (lines 36-41)\<close>

text \<open>\<open>Series.fillna(v)\<close>: every null cell becomes \<open>v\<close>, the others stay.\<close>

definition fillna :: "'a \<Rightarrow> 'a option list \<Rightarrow> 'a option list" where
  "fillna v xs = map (\<lambda>x. case x of None \<Rightarrow> Some v | Some y \<Rightarrow> Some y) xs"

primrec dropna :: "'a option list \<Rightarrow> 'a list" where
  "dropna [] = []"
| "dropna (x # xs) = (case x of None \<Rightarrow> dropna xs | Some v \<Rightarrow> v # dropna xs)"

text \<open>
  \<open>Series.mean()\<close> skips the nulls; over no value at all it is \<open>NaN\<close> (\<open>None\<close>), and it
  raises nothing.
\<close>

definition mean :: "real option list \<Rightarrow> real option" where
  "mean xs =
     (let vs = dropna xs
      in if vs = [] then None else Some (sum_list vs / real (length vs)))"

text \<open>\<open>fillna\<close> with a scalar that is itself \<open>NaN\<close> fills nothing.\<close>

definition fillna_float :: "real option \<Rightarrow> real option list \<Rightarrow> real option list" where
  "fillna_float m xs = (case m of None \<Rightarrow> xs | Some v \<Rightarrow> fillna v xs)"

definition fill_type_fuel :: "frame \<Rightarrow> frame" where
  "fill_type_fuel df = df\<lparr>Type_fuel := fillna ''Unknown'' (Type_fuel df)\<rparr>"

definition fill_length :: "frame \<Rightarrow> frame" where
  "fill_length df =
     (let mean_length = mean (Length df)
      in df\<lparr>Length := fillna_float mean_length (Length df)\<rparr>)"

section \<open>Distribution channel (lines 46-47)\<close>

text \<open>\<open>Series.replace(a, b)\<close>: the cells equal to \<open>a\<close> become \<open>b\<close>.\<close>

definition replace_val :: "pyval \<Rightarrow> pyval \<Rightarrow> pyval list \<Rightarrow> pyval list" where
  "replace_val a b xs = map (\<lambda>x. if x = a then b else x) xs"

text \<open>
  Python's \<open>int(s)\<close> on text, over ASCII: surrounding whitespace is stripped, one sign may
  lead, and the rest is decimal digits, where single underscores may stand between two
  digits. Anything else raises \<open>ValueError\<close> (\<open>None\<close> here).
\<close>

definition is_space :: "char \<Rightarrow> bool" where
  "is_space c \<longleftrightarrow> (of_char c :: nat) \<in> set [9, 10, 11, 12, 13, 28, 29, 30, 31, 32]"

definition is_digit :: "char \<Rightarrow> bool" where
  "is_digit c \<longleftrightarrow> 48 \<le> (of_char c :: nat) \<and> (of_char c :: nat) \<le> 57"

definition digit_val :: "char \<Rightarrow> nat" where
  "digit_val c = of_char c - 48"

definition strip :: "string \<Rightarrow> string" where
  "strip s = rev (dropWhile is_space (rev (dropWhile is_space s)))"

fun digits_from :: "nat \<Rightarrow> string \<Rightarrow> nat option" where
  "digits_from acc [] = Some acc"
| "digits_from acc (c # cs) =
     (if is_digit c then digits_from (acc * 10 + digit_val c) cs
      else if c = CHR ''_'' then
        (case cs of
           [] \<Rightarrow> None
         | d # ds \<Rightarrow> if is_digit d then digits_from (acc * 10 + digit_val d) ds else None)
      else None)"

definition py_digits :: "string \<Rightarrow> nat option" where
  "py_digits s =
     (case s of
        [] \<Rightarrow> None
      | c # cs \<Rightarrow> if is_digit c then digits_from (digit_val c) cs else None)"

definition py_int :: "string \<Rightarrow> int option" where
  "py_int s =
     (case strip s of
        [] \<Rightarrow> None
      | c # cs \<Rightarrow>
          if c = CHR ''-'' then map_option (\<lambda>n. - int n) (py_digits cs)
          else if c = CHR ''+'' then map_option int (py_digits cs)
          else map_option int (py_digits (c # cs)))"

text \<open>
  \<open>astype(int)\<close> builds an \<open>int64\<close> column. It calls \<open>int\<close> on each object in turn: text
  that is no integer and \<open>NaN\<close> raise \<open>ValueError\<close>, an integer outside 64 bits raises
  \<open>OverflowError\<close>. The first cell that raises ends the call.
\<close>

definition to_int64 :: "int \<Rightarrow> error + int" where
  "to_int64 n = (if - (2 ^ 63) \<le> n \<and> n < 2 ^ 63 then Inr n else Inl OverflowError)"

fun int_of_pyval :: "pyval \<Rightarrow> error + int" where
  "int_of_pyval (PInt n) = to_int64 n"
| "int_of_pyval (PStr s) = (case py_int s of None \<Rightarrow> Inl ValueError | Some n \<Rightarrow> to_int64 n)"
| "int_of_pyval PNaN = Inl ValueError"

fun astype_int :: "pyval list \<Rightarrow> error + int list" where
  "astype_int [] = Inr []"
| "astype_int (x # xs) =
     (case int_of_pyval x of
        Inl e \<Rightarrow> Inl e
      | Inr n \<Rightarrow> (case astype_int xs of Inl e \<Rightarrow> Inl e | Inr ns \<Rightarrow> Inr (n # ns)))"

definition fix_distribution_channel :: "frame \<Rightarrow> error + frame" where
  "fix_distribution_channel df =
     (let df1 = df\<lparr>Distribution_channel :=
                    replace_val (PStr ''00/01/1900'') (PInt 0) (Distribution_channel df)\<rparr>
      in case astype_int (Distribution_channel df1) of
           Inl e \<Rightarrow> Inl e
         | Inr ns \<Rightarrow> Inr (df1\<lparr>Distribution_channel := map PInt ns\<rparr>))"

section \<open>Date columns (lines 53-64)\<close>

text \<open>
  \<open>pd.to_datetime(col, errors='coerce', dayfirst=True)\<close>. The parser is pandas' own and is
  a parameter here: \<open>parse s\<close> is the timestamp it reads from the text \<open>s\<close> day-first, and
  \<open>None\<close> where it reads none (also where the date is outside the range of
  \<open>datetime64\<close>), which \<open>errors='coerce'\<close> turns into \<open>NaT\<close>. A null cell stays null. A
  column that is \<open>datetime64\<close> already is returned as it is.
\<close>

fun to_datetime :: "(string \<Rightarrow> int option) \<Rightarrow> date_col \<Rightarrow> date_col" where
  "to_datetime parse (ObjectCol xs) =
     DatetimeCol Naive (map (\<lambda>x. case x of None \<Rightarrow> None | Some s \<Rightarrow> parse s) xs)"
| "to_datetime parse (DatetimeCol tz xs) = DatetimeCol tz xs"

text \<open>
  Line 59: \<open>pd.Timestamp("0001-01-01")\<close>, 719162 days before 1970-01-01, timezone-naive.
  (At nanosecond resolution no value of a \<open>datetime64\<close> column lies before it, and line 60
  then changes nothing; the model keeps the comparison as it is written.)
\<close>

definition ts_limit :: int where
  "ts_limit = - 62135596800000000000"

text \<open>
  \<open>col < ts\<close> against a timezone-naive scalar: a null cell compares false; a column tagged
  with a zone raises \<open>TypeError\<close> (naive against aware), whatever its cells hold. Text is
  not ordered against a timestamp.
\<close>

fun lt_scalar :: "date_col \<Rightarrow> int \<Rightarrow> error + bool list" where
  "lt_scalar (DatetimeCol Naive xs) ts =
     Inr (map (\<lambda>x. case x of None \<Rightarrow> False | Some t \<Rightarrow> t < ts) xs)"
| "lt_scalar (DatetimeCol UTC xs) ts = Inl TypeError"
| "lt_scalar (ObjectCol xs) ts = Inl TypeError"

text \<open>\<open>df.loc[mask, col] = pd.NaT\<close>: the cells where the mask holds become null.\<close>

definition mask_nat :: "bool list \<Rightarrow> 'a option list \<Rightarrow> 'a option list" where
  "mask_nat sel xs = map (\<lambda>(m, x). if m then None else x) (zip sel xs)"

fun loc_set_nat :: "bool list \<Rightarrow> date_col \<Rightarrow> date_col" where
  "loc_set_nat sel (ObjectCol xs) = ObjectCol (mask_nat sel xs)"
| "loc_set_nat sel (DatetimeCol tz xs) = DatetimeCol tz (mask_nat sel xs)"

text \<open>
  \<open>col.dt.tz_localize("UTC")\<close>: a naive column gets the tag and keeps its wall-clock
  values; a column that has a zone already raises \<open>TypeError\<close>; a column of text has no
  \<open>.dt\<close> accessor.
\<close>

fun tz_localize_utc :: "date_col \<Rightarrow> error + date_col" where
  "tz_localize_utc (DatetimeCol Naive xs) = Inr (DatetimeCol UTC xs)"
| "tz_localize_utc (DatetimeCol UTC xs) = Inl TypeError"
| "tz_localize_utc (ObjectCol xs) = Inl TypeError"

definition set_col :: "date_column \<Rightarrow> date_col \<Rightarrow> frame \<Rightarrow> frame" where
  "set_col c col df = df\<lparr>dates := (dates df)(c := col)\<rparr>"

text \<open>The body of the loop, lines 56, 60 and 63: three assignments to \<open>df[col]\<close>.\<close>

definition normalize_col :: "(string \<Rightarrow> int option) \<Rightarrow> frame \<Rightarrow> date_column \<Rightarrow> error + frame" where
  "normalize_col parse df c =
     (let df1 = set_col c (to_datetime parse (dates df c)) df
      in and_then (lt_scalar (dates df1 c) ts_limit) (\<lambda>sel.
           let df2 = set_col c (loc_set_nat sel (dates df1 c)) df1
           in and_then (tz_localize_utc (dates df2 c)) (\<lambda>col.
                Inr (set_col c col df2))))"

fun for_each :: "('s \<Rightarrow> 'a \<Rightarrow> error + 's) \<Rightarrow> 'a list \<Rightarrow> 's \<Rightarrow> error + 's" where
  "for_each body [] s = Inr s"
| "for_each body (x # xs) s = and_then (body s x) (for_each body xs)"

definition normalize_dates :: "(string \<Rightarrow> int option) \<Rightarrow> frame \<Rightarrow> error + frame" where
  "normalize_dates parse df = for_each (normalize_col parse) date_columns df"

section \<open>Contradictions and the flag (lines 70-78)\<close>

definition eq_scalar :: "int list \<Rightarrow> int \<Rightarrow> bool list" where
  "eq_scalar xs v = map (\<lambda>x. x = v) xs"

definition isin :: "int list \<Rightarrow> int list \<Rightarrow> bool list" where
  "isin xs vs = map (\<lambda>x. x \<in> set vs) xs"

fun notnull :: "date_col \<Rightarrow> bool list" where
  "notnull (ObjectCol xs) = map (\<lambda>x. x \<noteq> None) xs"
| "notnull (DatetimeCol tz xs) = map (\<lambda>x. x \<noteq> None) xs"

definition mask_and :: "bool list \<Rightarrow> bool list \<Rightarrow> bool list" where
  "mask_and xs ys = map (\<lambda>(a, b). a \<and> b) (zip xs ys)"

text \<open>
  \<open>a > b\<close> on two date columns: cell by cell, false where either cell is null. Two
  \<open>datetime64\<close> columns compare when both are naive or both carry the zone, and raise
  \<open>TypeError\<close> otherwise. After the loop of line 53 every date column is
  \<open>datetime64[ns, UTC]\<close> (lemma \<open>normalize_dates_cols\<close>), so the case of a text column is
  never reached from \<open>clean_data\<close>; it is made an error.
\<close>

definition gt_cell :: "int option \<Rightarrow> int option \<Rightarrow> bool" where
  "gt_cell a b = (case a of None \<Rightarrow> False | Some x \<Rightarrow> (case b of None \<Rightarrow> False | Some y \<Rightarrow> x > y))"

fun gt_col :: "date_col \<Rightarrow> date_col \<Rightarrow> error + bool list" where
  "gt_col (DatetimeCol tz1 xs) (DatetimeCol tz2 ys) =
     (if tz1 = tz2 then Inr (map (\<lambda>(a, b). gt_cell a b) (zip xs ys)) else Inl TypeError)"
| "gt_col (ObjectCol xs) b = Inl TypeError"
| "gt_col a (ObjectCol ys) = Inl TypeError"

text \<open>Line 70: \<open>Lapse == 0\<close> and a lapse date: the lapse date becomes null.\<close>

definition lapse_without_date :: "frame \<Rightarrow> frame" where
  "lapse_without_date df =
     (let sel = mask_and (eq_scalar (Lapse df) 0) (notnull (dates df Date_lapse))
      in set_col Date_lapse (loc_set_nat sel (dates df Date_lapse)) df)"

text \<open>
  Line 71: \<open>Lapse\<close> in \<open>[1, 2]\<close>, a lapse date, and a last renewal after it: the last
  renewal becomes null. (Line 72 evaluates the same comparison again for the log.)
\<close>

definition renewal_after_lapse :: "frame \<Rightarrow> error + frame" where
  "renewal_after_lapse df =
     and_then (gt_col (dates df Date_last_renewal) (dates df Date_lapse)) (\<lambda>gt.
       let sel = mask_and (mask_and (isin (Lapse df) [1, 2]) (notnull (dates df Date_lapse))) gt
       in Inr (set_col Date_last_renewal (loc_set_nat sel (dates df Date_last_renewal)) df))"

text \<open>Lines 76-78: the comparison as a column of 0 and 1.\<close>

definition bool_astype_int :: "bool list \<Rightarrow> int list" where
  "bool_astype_int bs = map (\<lambda>b. if b then 1 else 0) bs"

definition flag_start_vs_last :: "frame \<Rightarrow> error + frame" where
  "flag_start_vs_last df =
     and_then (gt_col (dates df Date_start_contract) (dates df Date_last_renewal)) (\<lambda>gt.
       Inr (df\<lparr>flag_invalid_start_vs_last := Some (bool_astype_int gt)\<rparr>))"

section \<open>The whole of \<open>clean_data\<close>\<close>

definition clean_data :: "(string \<Rightarrow> int option) \<Rightarrow> frame \<Rightarrow> error + frame" where
  "clean_data parse df =
     and_then (fix_distribution_channel (fill_length (fill_type_fuel df))) (\<lambda>df3.
     and_then (normalize_dates parse df3) (\<lambda>df4.
     and_then (renewal_after_lapse (lapse_without_date df4)) (\<lambda>df5.
     flag_start_vs_last df5)))"

section \<open>The written frame in closed form\<close>

text \<open>
  The functions of this section are not in the source. They name what lines 56-71 leave in
  a date column, so that the theorems can speak about the cells of the written frame:
  \<open>norm_col\<close> is one pass of the loop body on a column, \<open>normalized\<close> the cells it leaves,
  and \<open>dates_out\<close> the cells after the two corrections of lines 70 and 71.
\<close>

definition floor_null :: "int option \<Rightarrow> int option" where
  "floor_null x = (case x of None \<Rightarrow> None | Some t \<Rightarrow> if t < ts_limit then None else Some t)"

definition norm_col :: "(string \<Rightarrow> int option) \<Rightarrow> date_col \<Rightarrow> error + date_col" where
  "norm_col parse col =
     and_then (lt_scalar (to_datetime parse col) ts_limit) (\<lambda>sel.
       tz_localize_utc (loc_set_nat sel (to_datetime parse col)))"

text \<open>The cells of a \<open>datetime64\<close> column; a column of text holds no timestamp.\<close>

fun col_values :: "date_col \<Rightarrow> int option list" where
  "col_values (DatetimeCol tz xs) = xs"
| "col_values (ObjectCol xs) = map (\<lambda>x. None) xs"

definition normalized :: "(string \<Rightarrow> int option) \<Rightarrow> date_col \<Rightarrow> int option list" where
  "normalized parse col = map floor_null (col_values (to_datetime parse col))"

definition lapse_out :: "(string \<Rightarrow> int option) \<Rightarrow> frame \<Rightarrow> int option list" where
  "lapse_out parse df =
     mask_nat (mask_and (eq_scalar (Lapse df) 0)
                 (map (\<lambda>x. x \<noteq> None) (normalized parse (dates df Date_lapse))))
       (normalized parse (dates df Date_lapse))"

definition last_renewal_out :: "(string \<Rightarrow> int option) \<Rightarrow> frame \<Rightarrow> int option list" where
  "last_renewal_out parse df =
     mask_nat (mask_and (mask_and (isin (Lapse df) [1, 2])
                 (map (\<lambda>x. x \<noteq> None) (lapse_out parse df)))
                 (map (\<lambda>(a, b). gt_cell a b)
                    (zip (normalized parse (dates df Date_last_renewal)) (lapse_out parse df))))
       (normalized parse (dates df Date_last_renewal))"

definition dates_out :: "(string \<Rightarrow> int option) \<Rightarrow> frame \<Rightarrow> date_column \<Rightarrow> int option list" where
  "dates_out parse df c =
     (if c = Date_lapse then lapse_out parse df
      else if c = Date_last_renewal then last_renewal_out parse df
      else normalized parse (dates df c))"

text \<open>The result of a run, with another \<open>Length\<close> column where it is a frame.\<close>

definition with_length :: "real option list \<Rightarrow> error + frame \<Rightarrow> error + frame" where
  "with_length l r = (case r of Inl e \<Rightarrow> Inl e | Inr d \<Rightarrow> Inr (d\<lparr>Length := l\<rparr>))"

section \<open>Sample batches\<close>

text \<open>
  An instance of the parser for the examples: a table of the texts the sample batch uses.
  One entry lies before \<open>ts_limit\<close>; every other text is unparseable.
\<close>

definition sample_parse :: "string \<Rightarrow> int option" where
  "sample_parse =
     map_of
       [(''01/01/2020'', 1577836800000000000),
        (''01/06/2020'', 1590969600000000000),
        (''01/01/2021'', 1609459200000000000),
        (''01/06/2021'', 1622505600000000000),
        (''31/12/0000'', - 62135683200000000000)]"

text \<open>
  Three rows: a policy that has not lapsed and carries a lapse date, a lapsed one renewed
  after its lapse, and a lapsed one renewed before it.
\<close>

definition raw_batch :: frame where
  "raw_batch =
     \<lparr>Type_fuel = [None, Some ''P'', Some ''D''],
      Length = [None, Some 10, Some 20],
      Distribution_channel = [PStr ''00/01/1900'', PStr ''1'', PInt 2],
      dates = (\<lambda>c. case c of
          Date_start_contract \<Rightarrow> ObjectCol [Some ''01/06/2021'', Some ''01/01/2020'', None]
        | Date_last_renewal \<Rightarrow> ObjectCol [Some ''01/01/2021'', Some ''01/06/2020'', Some ''01/01/2020'']
        | Date_next_renewal \<Rightarrow> ObjectCol [Some ''01/01/2021'', Some ''n/a'', None]
        | Date_birth \<Rightarrow> ObjectCol [Some ''31/12/0000'', None, None]
        | Date_driving_licence \<Rightarrow> ObjectCol [None, None, None]
        | Date_lapse \<Rightarrow> ObjectCol [Some ''01/01/2020'', Some ''01/01/2020'', Some ''01/06/2020'']),
      Lapse = [0, 1, 2],
      flag_invalid_start_vs_last = None\<rparr>"

definition cleaned_batch :: frame where
  "cleaned_batch =
     \<lparr>Type_fuel = [Some ''Unknown'', Some ''P'', Some ''D''],
      Length = [Some 15, Some 10, Some 20],
      Distribution_channel = [PInt 0, PInt 1, PInt 2],
      dates = (\<lambda>c. case c of
          Date_start_contract \<Rightarrow> DatetimeCol UTC [Some 1622505600000000000, Some 1577836800000000000, None]
        | Date_last_renewal \<Rightarrow> DatetimeCol UTC [Some 1609459200000000000, None, Some 1577836800000000000]
        | Date_next_renewal \<Rightarrow> DatetimeCol UTC [Some 1609459200000000000, None, None]
        | Date_birth \<Rightarrow> DatetimeCol UTC [None, None, None]
        | Date_driving_licence \<Rightarrow> DatetimeCol UTC [None, None, None]
        | Date_lapse \<Rightarrow> DatetimeCol UTC [None, Some 1577836800000000000, Some 1590969600000000000]),
      Lapse = [0, 1, 2],
      flag_invalid_start_vs_last = Some [1, 0, 0]\<rparr>"

definition null_length_batch :: frame where
  "null_length_batch = raw_batch\<lparr>Length := [None, None, None]\<rparr>"


definition null_channel_batch :: frame where
  "null_channel_batch = raw_batch\<lparr>Distribution_channel := [PStr ''00/01/1900'', PNaN, PInt 2]\<rparr>"

section \<open>Facts about the column operations\<close>

lemma and_then_Inr_iff: "and_then m f = Inr y \<longleftrightarrow> (\<exists>x. m = Inr x \<and> f x = Inr y)"
  by (cases m) (simp_all add: and_then_def)

lemma and_then_simps [simp]: "and_then (Inl e) f = Inl e" "and_then (Inr x) f = f x"
  by (simp_all add: and_then_def)

lemma mask_nat_same: "mask_nat (map p xs) xs = map (\<lambda>x. if p x then None else x) xs"
  by (induction xs) (simp_all add: mask_nat_def)

lemma length_mask_nat [simp]: "length (mask_nat sel xs) = min (length sel) (length xs)"
  by (simp add: mask_nat_def)

lemma nth_mask_nat:
  "i < length sel \<Longrightarrow> i < length xs \<Longrightarrow> mask_nat sel xs ! i = (if sel ! i then None else xs ! i)"
  by (simp add: mask_nat_def)

lemma length_mask_and [simp]: "length (mask_and xs ys) = min (length xs) (length ys)"
  by (simp add: mask_and_def)

lemma nth_mask_and:
  "i < length xs \<Longrightarrow> i < length ys \<Longrightarrow> mask_and xs ys ! i = (xs ! i \<and> ys ! i)"
  by (simp add: mask_and_def)

lemma set_col_simps [simp]:
  "dates (set_col c col df) = (dates df)(c := col)"
  "Type_fuel (set_col c col df) = Type_fuel df"
  "Length (set_col c col df) = Length df"
  "Distribution_channel (set_col c col df) = Distribution_channel df"
  "Lapse (set_col c col df) = Lapse df"
  "flag_invalid_start_vs_last (set_col c col df) = flag_invalid_start_vs_last df"
  by (simp_all add: set_col_def)

lemma fill_simps [simp]:
  "Type_fuel (fill_type_fuel df) = fillna ''Unknown'' (Type_fuel df)"
  "Length (fill_type_fuel df) = Length df"
  "Distribution_channel (fill_type_fuel df) = Distribution_channel df"
  "dates (fill_type_fuel df) = dates df"
  "Lapse (fill_type_fuel df) = Lapse df"
  "flag_invalid_start_vs_last (fill_type_fuel df) = flag_invalid_start_vs_last df"
  "Type_fuel (fill_length df) = Type_fuel df"
  "Length (fill_length df) = fillna_float (mean (Length df)) (Length df)"
  "Distribution_channel (fill_length df) = Distribution_channel df"
  "dates (fill_length df) = dates df"
  "Lapse (fill_length df) = Lapse df"
  "flag_invalid_start_vs_last (fill_length df) = flag_invalid_start_vs_last df"
  by (simp_all add: fill_type_fuel_def fill_length_def)

lemma gt_col_UTC [simp]:
  "gt_col (DatetimeCol UTC xs) (DatetimeCol UTC ys) = Inr (map (\<lambda>(a, b). gt_cell a b) (zip xs ys))"
  by simp

lemma gt_cell_iff: "gt_cell a b \<longleftrightarrow> (\<exists>x y. a = Some x \<and> b = Some y \<and> y < x)"
  by (cases a; cases b) (simp_all add: gt_cell_def)



lemma dropna_all_null: "list_all (\<lambda>x. x = None) xs \<Longrightarrow> dropna xs = []"
  by (induction xs) simp_all

lemma date_columns_all: "c \<in> set date_columns"
  by (cases c) (simp_all add: date_columns_def)

subsection \<open>Integer coercion\<close>

lemma to_int64_Inr: "to_int64 n = Inr m \<Longrightarrow> m = n \<and> to_int64 m = Inr m"
  by (auto simp: to_int64_def split: if_splits)

lemma int_of_pyval_Inr: "int_of_pyval x = Inr n \<Longrightarrow> to_int64 n = Inr n"
  by (cases x) (auto dest: to_int64_Inr split: option.splits)

lemma int_of_pyval_Inl: "int_of_pyval x = Inl e \<Longrightarrow> e = ValueError \<or> e = OverflowError"
  by (cases x) (auto simp: to_int64_def split: option.splits if_splits)


lemma astype_int_Inl:
  "x \<in> set xs \<Longrightarrow> int_of_pyval x = Inl e \<Longrightarrow> \<exists>e'. astype_int xs = Inl e'"
  by (induction xs) (auto split: sum.splits)

lemma astype_int_Inl_kind: "astype_int xs = Inl e \<Longrightarrow> e = ValueError \<or> e = OverflowError"
  by (induction xs) (auto dest: int_of_pyval_Inl split: sum.splits)

lemma astype_int_again: "astype_int xs = Inr ns \<Longrightarrow> astype_int (map PInt ns) = Inr ns"
proof (induction xs arbitrary: ns)
  case Nil
  then show ?case by simp
next
  case (Cons x xs)
  from Cons.prems obtain n ms where
    n: "int_of_pyval x = Inr n" and ms: "astype_int xs = Inr ms" and ns: "ns = n # ms"
    by (auto split: sum.splits)
  from Cons.IH [OF ms] int_of_pyval_Inr [OF n] ns show ?case by simp
qed

lemma replace_val_PInt: "replace_val (PStr s) b (map PInt ns) = map PInt ns"
  by (simp add: replace_val_def)

lemma fix_distribution_channel_Inr:
  assumes "fix_distribution_channel df = Inr df'"
  shows "\<exists>ns. astype_int (replace_val (PStr ''00/01/1900'') (PInt 0) (Distribution_channel df)) = Inr ns
           \<and> df' = df\<lparr>Distribution_channel := map PInt ns\<rparr>"
  using assms by (auto simp: fix_distribution_channel_def split: sum.splits)

subsection \<open>The loop over the date columns\<close>

lemma norm_col_Naive:
  "norm_col parse (DatetimeCol Naive xs) = Inr (DatetimeCol UTC (map floor_null xs))"
proof -
  have "mask_nat (map (\<lambda>x. case x of None \<Rightarrow> False | Some t \<Rightarrow> t < ts_limit) xs) xs = map floor_null xs"
    unfolding mask_nat_same by (rule map_cong) (simp_all add: floor_null_def split: option.splits)
  then show ?thesis by (simp add: norm_col_def)
qed

lemma norm_col_Object:
  "norm_col parse (ObjectCol xs) =
     Inr (DatetimeCol UTC (map (\<lambda>x. floor_null (case x of None \<Rightarrow> None | Some s \<Rightarrow> parse s)) xs))"
proof -
  have "norm_col parse (ObjectCol xs) =
        norm_col parse (DatetimeCol Naive (map (\<lambda>x. case x of None \<Rightarrow> None | Some s \<Rightarrow> parse s) xs))"
    by (simp add: norm_col_def)
  then show ?thesis by (simp add: norm_col_Naive o_def)
qed

lemma norm_col_UTC: "norm_col parse (DatetimeCol UTC xs) = Inl TypeError"
  by (simp add: norm_col_def)

lemma normalize_col_eq:
  "normalize_col parse df c = and_then (norm_col parse (dates df c)) (\<lambda>col. Inr (set_col c col df))"
  by (cases "lt_scalar (to_datetime parse (dates df c)) ts_limit")
     (simp_all add: normalize_col_def norm_col_def set_col_def Let_def and_then_def split: sum.splits)

lemma norm_col_Inr:
  "norm_col parse col = Inr col' \<Longrightarrow> col' = DatetimeCol UTC (normalized parse col)"
proof (cases col)
  case (ObjectCol xs)
  assume "norm_col parse col = Inr col'"
  with ObjectCol show ?thesis by (auto simp add: norm_col_Object normalized_def o_def)
next
  case (DatetimeCol tz xs)
  assume "norm_col parse col = Inr col'"
  with DatetimeCol show ?thesis
    by (cases tz) (simp_all add: norm_col_Naive norm_col_UTC normalized_def)
qed

lemma length_normalized [simp]: "length (normalized parse col) = col_len col"
  by (cases col) (simp_all add: normalized_def)


text \<open>
  The loop invariant: the columns already visited hold the result of \<open>norm_col\<close> on what
  was loaded, the others are untouched, and so is every other column of the frame.
\<close>

lemma for_each_normalize:
  "distinct cs \<Longrightarrow> for_each (normalize_col parse) cs df = Inr df' \<Longrightarrow>
     df' = df\<lparr>dates := dates df'\<rparr> \<and>
     (\<forall>c. if c \<in> set cs then norm_col parse (dates df c) = Inr (dates df' c)
          else dates df' c = dates df c)"
proof (induction cs arbitrary: df)
  case Nil
  then show ?case by simp
next
  case (Cons a cs)
  from Cons.prems(2) obtain df1 where
    step: "normalize_col parse df a = Inr df1" and rest: "for_each (normalize_col parse) cs df1 = Inr df'"
    by (auto simp: and_then_Inr_iff)
  from step obtain col where col: "norm_col parse (dates df a) = Inr col" and df1: "df1 = set_col a col df"
    by (auto simp: normalize_col_eq and_then_Inr_iff)
  from Cons.prems(1) have d: "distinct cs" and a: "a \<notin> set cs" by simp_all
  from Cons.IH [OF d rest] have
    eq: "df' = df1\<lparr>dates := dates df'\<rparr>" and
    cols: "\<And>c. if c \<in> set cs then norm_col parse (dates df1 c) = Inr (dates df' c)
          else dates df' c = dates df1 c"
    by blast+
  have "df' = df\<lparr>dates := dates df'\<rparr>"
    using eq df1 by (metis (no_types) set_col_def frame.update_convs(4) frame.surjective) 
  moreover have "if c \<in> set (a # cs) then norm_col parse (dates df c) = Inr (dates df' c)
          else dates df' c = dates df c" for c
    using cols [of c] a col df1 by (cases "c = a") (auto split: if_splits)
  ultimately show ?case by blast
qed

lemma normalize_dates_cols:
  assumes "normalize_dates parse df = Inr df'"
  shows "df' = df\<lparr>dates := dates df'\<rparr>"
    and "dates df' c = DatetimeCol UTC (normalized parse (dates df c))"
proof -
  have d: "distinct date_columns" by (simp add: date_columns_def)
  from for_each_normalize [OF d assms [unfolded normalize_dates_def]]
  show "df' = df\<lparr>dates := dates df'\<rparr>"
    and "dates df' c = DatetimeCol UTC (normalized parse (dates df c))"
    using date_columns_all [of c] norm_col_Inr [of parse "dates df c" "dates df' c"] by auto
qed




section \<open>What a successful run writes\<close>

lemma clean_data_Inr:
  assumes "clean_data parse df = Inr df'"
  shows "Type_fuel df' = fillna ''Unknown'' (Type_fuel df)"
    and "Length df' = fillna_float (mean (Length df)) (Length df)"
    and "Lapse df' = Lapse df"
    and "\<exists>ns. astype_int (replace_val (PStr ''00/01/1900'') (PInt 0) (Distribution_channel df)) = Inr ns
           \<and> Distribution_channel df' = map PInt ns"
    and "dates df' c = DatetimeCol UTC (dates_out parse df c)"
    and "flag_invalid_start_vs_last df' =
           Some (bool_astype_int (map (\<lambda>(a, b). gt_cell a b)
                   (zip (dates_out parse df Date_start_contract) (dates_out parse df Date_last_renewal))))"
proof -
  from assms obtain df3 df4 df5 where
    s3: "fix_distribution_channel (fill_length (fill_type_fuel df)) = Inr df3" and
    s4: "normalize_dates parse df3 = Inr df4" and
    s5: "renewal_after_lapse (lapse_without_date df4) = Inr df5" and
    s6: "flag_start_vs_last df5 = Inr df'"
    by (auto simp: clean_data_def and_then_Inr_iff)
  from fix_distribution_channel_Inr [OF s3] obtain ns where
    ns: "astype_int (replace_val (PStr ''00/01/1900'') (PInt 0) (Distribution_channel df)) = Inr ns" and
    df3: "df3 = (fill_length (fill_type_fuel df))\<lparr>Distribution_channel := map PInt ns\<rparr>"
    by auto
  have d3: "dates df3 = dates df" "Lapse df3 = Lapse df" "Type_fuel df3 = fillna ''Unknown'' (Type_fuel df)"
    "Length df3 = fillna_float (mean (Length df)) (Length df)" "Distribution_channel df3 = map PInt ns"
    by (simp_all add: df3)
  note n4 = normalize_dates_cols [OF s4]
  have d4: "dates df4 c = DatetimeCol UTC (normalized parse (dates df c))" for c
    using n4(2) [of c] d3 by simp
  have o4: "Lapse df4 = Lapse df" "Type_fuel df4 = Type_fuel df3" "Length df4 = Length df3"
    "Distribution_channel df4 = Distribution_channel df3"
    by (subst n4(1), simp add: d3)+
  define dfa where "dfa = lapse_without_date df4"
  have da: "dates dfa = (dates df4)(Date_lapse := DatetimeCol UTC (lapse_out parse df))"
    and oa: "Lapse dfa = Lapse df" "Type_fuel dfa = Type_fuel df3" "Length dfa = Length df3"
    "Distribution_channel dfa = Distribution_channel df3"
    by (simp_all add: dfa_def lapse_without_date_def Let_def d4 o4 lapse_out_def)
  from s5 have df5: "df5 = set_col Date_last_renewal (DatetimeCol UTC (last_renewal_out parse df)) dfa"
    by (simp add: renewal_after_lapse_def dfa_def [symmetric] da d4 oa Let_def last_renewal_out_def)
  have d5: "dates df5 c = DatetimeCol UTC (dates_out parse df c)" for c
    by (simp add: df5 da d4 dates_out_def)
  from s6 have df': "df' = df5\<lparr>flag_invalid_start_vs_last := Some (bool_astype_int (map (\<lambda>(a, b). gt_cell a b)
                   (zip (dates_out parse df Date_start_contract) (dates_out parse df Date_last_renewal))))\<rparr>"
    by (auto simp add: flag_start_vs_last_def d5)
  show "Type_fuel df' = fillna ''Unknown'' (Type_fuel df)"
    and "Length df' = fillna_float (mean (Length df)) (Length df)"
    and "Lapse df' = Lapse df"
    by (simp_all add: df' df5 oa d3)
  show "dates df' c = DatetimeCol UTC (dates_out parse df c)"
    by (simp add: df' d5)
  show "flag_invalid_start_vs_last df' =
           Some (bool_astype_int (map (\<lambda>(a, b). gt_cell a b)
                   (zip (dates_out parse df Date_start_contract) (dates_out parse df Date_last_renewal))))"
    by (simp add: df')
  show "\<exists>ns. astype_int (replace_val (PStr ''00/01/1900'') (PInt 0) (Distribution_channel df)) = Inr ns
           \<and> Distribution_channel df' = map PInt ns"
    using ns by (simp add: df' df5 oa d3)
qed

text \<open>A failure of the integer coercion is the failure of the whole call.\<close>

lemma clean_data_channel_Inl:
  assumes "x \<in> set (Distribution_channel df)" and "x \<noteq> PStr ''00/01/1900''"
    and "int_of_pyval x = Inl e"
  shows "clean_data parse df = Inl ValueError \<or> clean_data parse df = Inl OverflowError"
proof -
  let ?xs = "replace_val (PStr ''00/01/1900'') (PInt 0) (Distribution_channel df)"
  from assms(1,2) have "x \<in> set ?xs" by (auto simp: replace_val_def)
  from astype_int_Inl [OF this assms(3)] obtain e' where e': "astype_int ?xs = Inl e'" ..
  then have "clean_data parse df = Inl e'"
    by (simp add: clean_data_def fix_distribution_channel_def)
  with astype_int_Inl_kind [OF e'] show ?thesis by auto
qed

lemma well_formed_col_len: "well_formed df \<Longrightarrow> col_len (dates df c) = nrows df"
  using date_columns_all [of c] by (auto simp: well_formed_def list_all_iff)

lemma length_normalized_wf: "well_formed df \<Longrightarrow> length (normalized parse (dates df c)) = nrows df"
  by (simp add: well_formed_col_len)

lemma length_lapse_out: "well_formed df \<Longrightarrow> length (lapse_out parse df) = nrows df"
  by (simp add: lapse_out_def eq_scalar_def well_formed_col_len nrows_def)

lemma nth_lapse_out:
  assumes "well_formed df" and "i < nrows df"
  shows "lapse_out parse df ! i =
           (if Lapse df ! i = 0 then None else normalized parse (dates df Date_lapse) ! i)"
proof -
  have "length (normalized parse (dates df Date_lapse)) = nrows df"
    using assms(1) by (rule length_normalized_wf)
  with assms(2) show ?thesis
    by (simp add: lapse_out_def nth_mask_nat nth_mask_and eq_scalar_def nrows_def)
qed

lemma length_last_renewal_out: "well_formed df \<Longrightarrow> length (last_renewal_out parse df) = nrows df"
  by (simp add: last_renewal_out_def isin_def length_lapse_out well_formed_col_len nrows_def)

lemma nth_last_renewal_out:
  assumes "well_formed df" and "i < nrows df"
  shows "last_renewal_out parse df ! i =
           (if Lapse df ! i \<in> {1, 2} \<and> lapse_out parse df ! i \<noteq> None \<and>
               gt_cell (normalized parse (dates df Date_last_renewal) ! i) (lapse_out parse df ! i)
            then None else normalized parse (dates df Date_last_renewal) ! i)"
proof -
  have "length (normalized parse (dates df Date_last_renewal)) = nrows df"
    and "length (lapse_out parse df) = nrows df"
    using assms(1) by (simp_all add: well_formed_col_len length_lapse_out)
  with assms(2) show ?thesis
    by (simp add: last_renewal_out_def nth_mask_nat nth_mask_and isin_def nrows_def)
qed

lemma length_dates_out: "well_formed df \<Longrightarrow> length (dates_out parse df c) = nrows df"
  by (simp add: dates_out_def length_lapse_out length_last_renewal_out well_formed_col_len)


section \<open>No step after line 41 looks at \<open>Length\<close>\<close>

text \<open>
  Every step after the fill carries the \<open>Length\<close> column along: a run on a frame with
  another \<open>Length\<close> column fails with the same exception or writes the same frame but for
  that column.
\<close>

lemma with_length_simps [simp]:
  "with_length l (Inl e) = Inl e" "with_length l (Inr d) = Inr (d\<lparr>Length := l\<rparr>)"
  by (simp_all add: with_length_def)

lemma with_length_and_then:
  "(\<And>d. g (d\<lparr>Length := l\<rparr>) = with_length l (g d)) \<Longrightarrow>
   and_then (with_length l r) g = with_length l (and_then r g)"
  by (cases r) simp_all

lemma fix_distribution_channel_Length:
  "fix_distribution_channel (d\<lparr>Length := l\<rparr>) = with_length l (fix_distribution_channel d)"
  by (simp add: fix_distribution_channel_def Let_def split: sum.splits)

lemma set_col_Length: "set_col c col (d\<lparr>Length := l\<rparr>) = (set_col c col d)\<lparr>Length := l\<rparr>"
  by (simp add: set_col_def)

lemma normalize_col_Length:
  "normalize_col parse (d\<lparr>Length := l\<rparr>) c = with_length l (normalize_col parse d c)"
  by (cases "norm_col parse (dates d c)") (simp_all add: normalize_col_eq set_col_Length)

lemma for_each_normalize_Length:
  "for_each (normalize_col parse) cs (d\<lparr>Length := l\<rparr>) =
     with_length l (for_each (normalize_col parse) cs d)"
proof (induction cs arbitrary: d)
  case Nil
  then show ?case by simp
next
  case (Cons c cs)
  show ?case
    by (cases "normalize_col parse d c") (simp_all add: normalize_col_Length Cons.IH)
qed

lemma normalize_dates_Length:
  "normalize_dates parse (d\<lparr>Length := l\<rparr>) = with_length l (normalize_dates parse d)"
  by (simp add: normalize_dates_def for_each_normalize_Length)

lemma lapse_without_date_Length:
  "lapse_without_date (d\<lparr>Length := l\<rparr>) = (lapse_without_date d)\<lparr>Length := l\<rparr>"
  by (simp add: lapse_without_date_def Let_def set_col_Length)

lemma renewal_after_lapse_Length:
  "renewal_after_lapse (d\<lparr>Length := l\<rparr>) = with_length l (renewal_after_lapse d)"
  by (cases "gt_col (dates d Date_last_renewal) (dates d Date_lapse)")
     (simp_all add: renewal_after_lapse_def Let_def set_col_Length)

lemma flag_start_vs_last_Length:
  "flag_start_vs_last (d\<lparr>Length := l\<rparr>) = with_length l (flag_start_vs_last d)"
  by (cases "gt_col (dates d Date_start_contract) (dates d Date_last_renewal)")
     (simp_all add: flag_start_vs_last_def)

lemma fill_length_Length:
  "fill_length (fill_type_fuel (df\<lparr>Length := l\<rparr>)) =
     (fill_length (fill_type_fuel df))\<lparr>Length := fillna_float (mean l) l\<rparr>"
  by (simp add: fill_length_def fill_type_fuel_def)

lemma clean_data_Length:
  "clean_data parse (df\<lparr>Length := l\<rparr>) =
     with_length (fillna_float (mean l) l) (clean_data parse df)"
proof -
  let ?l = "fillna_float (mean l) l"
  let ?k = "\<lambda>df4. and_then (renewal_after_lapse (lapse_without_date df4)) flag_start_vs_last"
  have k: "?k (d\<lparr>Length := ?l\<rparr>) = with_length ?l (?k d)" for d
    by (simp add: lapse_without_date_Length renewal_after_lapse_Length
        with_length_and_then flag_start_vs_last_Length)
  let ?j = "\<lambda>df3. and_then (normalize_dates parse df3) ?k"
  have j: "?j (d\<lparr>Length := ?l\<rparr>) = with_length ?l (?j d)" for d
    by (simp only: normalize_dates_Length with_length_and_then [where g = ?k, OF k])
  have "clean_data parse (df\<lparr>Length := l\<rparr>) =
      and_then (with_length ?l (fix_distribution_channel (fill_length (fill_type_fuel df)))) ?j"
    by (simp add: clean_data_def fill_length_Length fix_distribution_channel_Length)
  also have "\<dots> = with_length ?l (and_then (fix_distribution_channel (fill_length (fill_type_fuel df))) ?j)"
    by (rule with_length_and_then [where g = ?j, OF j])
  finally show ?thesis by (simp add: clean_data_def)
qed

section \<open>The sample batches, evaluated\<close>

lemmas py_int_eval = py_int_def strip_def is_space_def py_digits_def is_digit_def digit_val_def

lemmas clean_eval =
  clean_data_def fill_type_fuel_def fill_length_def fillna_def mean_def fillna_float_def
  fix_distribution_channel_def replace_val_def py_int_eval to_int64_def
  normalize_dates_def date_columns_def normalize_col_def set_col_def sample_parse_def
  ts_limit_def mask_nat_def lapse_without_date_def renewal_after_lapse_def mask_and_def
  eq_scalar_def isin_def gt_cell_def flag_start_vs_last_def bool_astype_int_def Let_def

lemma well_formed_raw_batch: "well_formed raw_batch"
  by (simp add: well_formed_def raw_batch_def nrows_def date_columns_def)


lemma nrows_raw_batch: "nrows raw_batch = 3"
  by (simp add: nrows_def raw_batch_def)

lemma clean_raw_batch: "clean_data sample_parse raw_batch = Inr cleaned_batch"
  apply (simp add: clean_eval raw_batch_def cleaned_batch_def)
  apply (simp add: fun_eq_iff split: date_column.split)
  done

lemma clean_null_length_batch:
  "clean_data sample_parse null_length_batch = Inr (cleaned_batch\<lparr>Length := [None, None, None]\<rparr>)"
  apply (simp add: clean_eval null_length_batch_def raw_batch_def cleaned_batch_def)
  apply (simp add: fun_eq_iff split: date_column.split)
  done

lemma clean_cleaned_batch: "clean_data sample_parse cleaned_batch = Inl TypeError"
  by (simp add: clean_eval cleaned_batch_def)


lemma clean_null_channel_batch:
  "clean_data sample_parse null_channel_batch = Inl ValueError"
  by (simp add: clean_eval null_channel_batch_def raw_batch_def)

section \<open>Missing values\<close>

text \<open>
  C9. In the written frame every null \<open>Type_fuel\<close> has become the text \<open>Unknown\<close>, every
  other value is the one loaded, and no cell of the column is null. The column keeps its
  length.
\<close>

theorem type_fuel_filled:
  assumes "clean_data parse df = Inr df'" and "i < length (Type_fuel df)"
  shows "length (Type_fuel df') = length (Type_fuel df) \<and>
         Type_fuel df' ! i =
           (case Type_fuel df ! i of None \<Rightarrow> Some ''Unknown'' | Some s \<Rightarrow> Some s) \<and>
         Type_fuel df' ! i \<noteq> None"
  using assms(2) by (simp add: clean_data_Inr(1) [OF assms(1)] fillna_def split: option.split)

theorem type_fuel_filled_witness:
  "clean_data sample_parse raw_batch = Inr cleaned_batch \<and>
   Type_fuel raw_batch = [None, Some ''P'', Some ''D''] \<and>
   Type_fuel cleaned_batch ! 0 = Some ''Unknown'' \<and> Type_fuel cleaned_batch ! 1 = Some ''P''"
proof -
  have r: "Type_fuel raw_batch = [None, Some ''P'', Some ''D'']" by (simp add: raw_batch_def)
  have "Type_fuel cleaned_batch ! 0 = Some ''Unknown''"
    using type_fuel_filled [OF clean_raw_batch, of 0] by (simp add: r)
  moreover have "Type_fuel cleaned_batch ! 1 = Some ''P''"
    using type_fuel_filled [OF clean_raw_batch, of 1] by (simp add: r)
  ultimately show ?thesis using clean_raw_batch r by blast
qed



text \<open>
  C1, as the code has it. When every \<open>Length\<close> is null the mean is \<open>NaN\<close>, the fill changes
  nothing and raises nothing, and a run that succeeds writes the column as loaded, every
  cell null. The source has no check on the mean: whether the run fails, and with which
  exception, is the same for any other \<open>Length\<close> column.
\<close>

theorem length_all_null:
  assumes "list_all (\<lambda>x. x = None) (Length df)"
  shows "mean (Length df) = None \<and> fill_length df = df \<and>
         (\<forall>df'. clean_data parse df = Inr df' \<longrightarrow>
            Length df' = Length df \<and> list_all (\<lambda>x. x = None) (Length df')) \<and>
         (\<forall>l e. clean_data parse df = Inl e \<longleftrightarrow> clean_data parse (df\<lparr>Length := l\<rparr>) = Inl e)"
proof -
  have m: "mean (Length df) = None"
    using dropna_all_null [OF assms] by (simp add: mean_def)
  then have "fill_length df = df"
    by (simp add: fill_length_def fillna_float_def)
  moreover have "Length df' = Length df" if "clean_data parse df = Inr df'" for df'
    using clean_data_Inr(2) [OF that] m by (simp add: fillna_float_def)
  moreover have "clean_data parse df = Inl e \<longleftrightarrow> clean_data parse (df\<lparr>Length := l\<rparr>) = Inl e"
    for l e
    unfolding clean_data_Length by (cases "clean_data parse df") simp_all
  ultimately show ?thesis using m assms by simp
qed

theorem length_all_null_witness:
  "list_all (\<lambda>x. x = None) (Length null_length_batch) \<and>
   mean (Length null_length_batch) = None \<and>
   fill_length null_length_batch = null_length_batch \<and>
   clean_data sample_parse null_length_batch = Inr (cleaned_batch\<lparr>Length := [None, None, None]\<rparr>) \<and>
   Length (cleaned_batch\<lparr>Length := [None, None, None]\<rparr>) = Length null_length_batch"
proof -
  have n: "list_all (\<lambda>x. x = None) (Length null_length_batch)"
    by (simp add: null_length_batch_def)
  from length_all_null [OF n, of sample_parse] clean_null_length_batch n show ?thesis
    by blast
qed

text \<open>
  The sample batch with every \<open>Length\<close> null is cleaned and written, its \<open>Length\<close> column
  still null: the run does not fail.
\<close>

theorem length_all_null_counterexample:
  "list_all (\<lambda>x. x = None) (Length null_length_batch) \<and>
   (\<exists>d. clean_data sample_parse null_length_batch = Inr d \<and> Length d = [None, None, None])"
  by (simp add: clean_null_length_batch) (simp add: null_length_batch_def)

section \<open>Distribution channel\<close>



text \<open>
  C10. A batch with a null \<open>Distribution_channel\<close> is not written: the run ends with the
  exception of the integer coercion, as it does for text that is no integer.
\<close>

theorem distribution_channel_null_fails:
  assumes "PNaN \<in> set (Distribution_channel df)"
  shows "clean_data parse df = Inl ValueError \<or> clean_data parse df = Inl OverflowError"
  using clean_data_channel_Inl [OF assms, of ValueError parse] by simp

theorem distribution_channel_null_fails_witness:
  "PNaN \<in> set (Distribution_channel null_channel_batch) \<and>
   (clean_data sample_parse null_channel_batch = Inl ValueError \<or>
    clean_data sample_parse null_channel_batch = Inl OverflowError) \<and>
   clean_data sample_parse null_channel_batch = Inl ValueError"
proof -
  have n: "PNaN \<in> set (Distribution_channel null_channel_batch)"
    by (simp add: null_channel_batch_def)
  from distribution_channel_null_fails [OF n, of sample_parse] n clean_null_channel_batch
  show ?thesis by blast
qed

section \<open>Date columns\<close>



section \<open>Contradictions and the flag\<close>

text \<open>
  C3. In the written frame \<open>Lapse\<close> is as loaded, and on every row where it is 0 the lapse
  date is null. On the other rows the lapse date is what the loop of line 53 left.
\<close>

theorem lapse_null_when_not_lapsed:
  assumes "clean_data parse df = Inr df'" and "well_formed df" and "i < nrows df"
  shows "\<exists>ls. dates df' Date_lapse = DatetimeCol UTC ls \<and> length ls = nrows df \<and>
           Lapse df' = Lapse df \<and>
           (Lapse df' ! i = 0 \<longrightarrow> ls ! i = None) \<and>
           (Lapse df' ! i \<noteq> 0 \<longrightarrow> ls ! i = normalized parse (dates df Date_lapse) ! i)"
proof -
  have "dates df' Date_lapse = DatetimeCol UTC (lapse_out parse df)"
    using clean_data_Inr(5) [OF assms(1), of Date_lapse] by (simp add: dates_out_def)
  moreover have "Lapse df' = Lapse df" by (rule clean_data_Inr(3) [OF assms(1)])
  ultimately show ?thesis
    using length_lapse_out [OF assms(2)] nth_lapse_out [OF assms(2,3)] by simp
qed

theorem lapse_null_when_not_lapsed_witness:
  "clean_data sample_parse raw_batch = Inr cleaned_batch \<and> well_formed raw_batch \<and>
   0 < nrows raw_batch \<and> Lapse cleaned_batch ! 0 = 0 \<and>
   (\<exists>ls. dates cleaned_batch Date_lapse = DatetimeCol UTC ls \<and> ls ! 0 = None)"
proof -
  have i: "0 < nrows raw_batch" by (simp add: nrows_raw_batch)
  from lapse_null_when_not_lapsed [OF clean_raw_batch well_formed_raw_batch i]
  obtain ls where ls: "dates cleaned_batch Date_lapse = DatetimeCol UTC ls"
    and L: "Lapse cleaned_batch = Lapse raw_batch"
    and z: "Lapse cleaned_batch ! 0 = 0 \<longrightarrow> ls ! 0 = None"
    by blast
  have "Lapse cleaned_batch ! 0 = 0" by (simp add: L raw_batch_def)
  with ls z i show ?thesis
    using clean_raw_batch well_formed_raw_batch by blast
qed

text \<open>
  C2. In the written frame, on every row where \<open>Lapse\<close> is 1 or 2 and the lapse date is not
  null, the last renewal is null or not after the lapse date. The lapse date written is
  the one line 70 left (line 71 does not touch it), and the last renewal written is null
  exactly where \<open>Lapse\<close> is 1 or 2 and both dates are present with the renewal after that
  lapse date; elsewhere it is what the loop of line 53 left. A null on either side of the
  comparison leaves the renewal as it is.
\<close>

theorem renewal_not_after_lapse:
  assumes "clean_data parse df = Inr df'" and "well_formed df" and "i < nrows df"
  shows "\<exists>ls rs. dates df' Date_lapse = DatetimeCol UTC ls \<and>
           dates df' Date_last_renewal = DatetimeCol UTC rs \<and>
           (Lapse df' ! i \<in> {1, 2} \<and> ls ! i \<noteq> None \<longrightarrow>
              rs ! i = None \<or> (\<exists>r l. rs ! i = Some r \<and> ls ! i = Some l \<and> r \<le> l)) \<and>
           ls ! i = (if Lapse df ! i = 0 then None else normalized parse (dates df Date_lapse) ! i) \<and>
           rs ! i =
             (if Lapse df ! i \<in> {1, 2} \<and>
                 (\<exists>r l. normalized parse (dates df Date_last_renewal) ! i = Some r \<and>
                        ls ! i = Some l \<and> l < r)
              then None else normalized parse (dates df Date_last_renewal) ! i)"
proof -
  let ?ls = "lapse_out parse df" and ?rs = "last_renewal_out parse df"
  let ?n = "normalized parse (dates df Date_last_renewal) ! i"
  have ls: "dates df' Date_lapse = DatetimeCol UTC ?ls"
    and rs: "dates df' Date_last_renewal = DatetimeCol UTC ?rs"
    using clean_data_Inr(5) [OF assms(1)] by (simp_all add: dates_out_def)
  have L: "Lapse df' = Lapse df" by (rule clean_data_Inr(3) [OF assms(1)])
  have r: "?rs ! i = (if Lapse df ! i \<in> {1, 2} \<and> (\<exists>r l. ?n = Some r \<and> ?ls ! i = Some l \<and> l < r)
              then None else ?n)"
    unfolding nth_last_renewal_out [OF assms(2,3)] gt_cell_iff by auto
  have inv: "?rs ! i = None \<or> (\<exists>r l. ?rs ! i = Some r \<and> ?ls ! i = Some l \<and> r \<le> l)"
    if "Lapse df ! i \<in> {1, 2}" and "?ls ! i \<noteq> None"
  proof (cases "?rs ! i")
    case None
    then show ?thesis by simp
  next
    case (Some x)
    from that(2) obtain l where l: "?ls ! i = Some l" by auto
    from Some r that(1) l have "?n = Some x" and "\<not> l < x"
      by (auto split: if_splits)
    with Some l show ?thesis by simp
  qed
  show ?thesis
    using ls rs L r inv nth_lapse_out [OF assms(2,3), of parse] by auto
qed

theorem renewal_not_after_lapse_witness:
  "clean_data sample_parse raw_batch = Inr cleaned_batch \<and> well_formed raw_batch \<and>
   2 < nrows raw_batch \<and> Lapse cleaned_batch ! 2 = 2 \<and>
   (\<exists>ls rs l r. dates cleaned_batch Date_lapse = DatetimeCol UTC ls \<and>
      dates cleaned_batch Date_last_renewal = DatetimeCol UTC rs \<and>
      ls ! 2 = Some l \<and> rs ! 2 = Some r \<and> r \<le> l)"
proof -
  have i: "2 < nrows raw_batch" by (simp add: nrows_raw_batch)
  from renewal_not_after_lapse [OF clean_raw_batch well_formed_raw_batch i]
  obtain ls rs where ls: "dates cleaned_batch Date_lapse = DatetimeCol UTC ls"
    and rs: "dates cleaned_batch Date_last_renewal = DatetimeCol UTC rs"
    and inv: "Lapse cleaned_batch ! 2 \<in> {1, 2} \<and> ls ! 2 \<noteq> None \<longrightarrow>
              rs ! 2 = None \<or> (\<exists>r l. rs ! 2 = Some r \<and> ls ! 2 = Some l \<and> r \<le> l)"
    by blast
  have L: "Lapse cleaned_batch ! 2 = 2" by (simp add: cleaned_batch_def)
  from ls have l: "ls ! 2 = Some 1590969600000000000" by (auto simp: cleaned_batch_def)
  from rs have r: "rs ! 2 = Some 1577836800000000000" by (auto simp: cleaned_batch_def)
  from inv L l r have "\<exists>r l. rs ! 2 = Some r \<and> ls ! 2 = Some l \<and> r \<le> l" by simp
  with ls rs L i show ?thesis
    using clean_raw_batch well_formed_raw_batch by blast
qed

text \<open>
  C4. The written frame has the column \<open>flag_invalid_start_vs_last\<close>, of the frame's
  length. On every row it is 1 exactly when the written start of contract and last
  renewal are both present and the start is after the renewal, and 0 otherwise. Computing
  the flag leaves every date column as it is.
\<close>

theorem flag_start_after_renewal:
  assumes "clean_data parse df = Inr df'" and "well_formed df" and "i < nrows df"
  shows "\<exists>fl ss rs. flag_invalid_start_vs_last df' = Some fl \<and> length fl = nrows df \<and>
           dates df' Date_start_contract = DatetimeCol UTC ss \<and>
           dates df' Date_last_renewal = DatetimeCol UTC rs \<and>
           (fl ! i = 1 \<longleftrightarrow> (\<exists>s r. ss ! i = Some s \<and> rs ! i = Some r \<and> r < s)) \<and>
           (fl ! i = 0 \<longleftrightarrow> \<not> (\<exists>s r. ss ! i = Some s \<and> rs ! i = Some r \<and> r < s)) \<and>
           (\<forall>d d'. flag_start_vs_last d = Inr d' \<longrightarrow> dates d' = dates d)"
proof -
  let ?ss = "dates_out parse df Date_start_contract" and ?rs = "dates_out parse df Date_last_renewal"
  have len: "length ?ss = nrows df" "length ?rs = nrows df"
    using assms(2) by (simp_all add: length_dates_out)
  have "flag_invalid_start_vs_last df' =
          Some (bool_astype_int (map (\<lambda>(a, b). gt_cell a b) (zip ?ss ?rs)))"
    by (rule clean_data_Inr(6) [OF assms(1)])
  moreover have "bool_astype_int (map (\<lambda>(a, b). gt_cell a b) (zip ?ss ?rs)) ! i =
      (if gt_cell (?ss ! i) (?rs ! i) then 1 else 0)"
    using len assms(3) by (simp add: bool_astype_int_def)
  moreover have "length (bool_astype_int (map (\<lambda>(a, b). gt_cell a b) (zip ?ss ?rs))) = nrows df"
    using len by (simp add: bool_astype_int_def)
  moreover have "dates d' = dates d" if "flag_start_vs_last d = Inr d'" for d d'
    using that by (auto simp: flag_start_vs_last_def and_then_Inr_iff)
  ultimately show ?thesis
    using clean_data_Inr(5) [OF assms(1)] by (simp add: gt_cell_iff)
qed

theorem flag_start_after_renewal_witness:
  "clean_data sample_parse raw_batch = Inr cleaned_batch \<and> well_formed raw_batch \<and>
   0 < nrows raw_batch \<and>
   (\<exists>fl ss rs s r. flag_invalid_start_vs_last cleaned_batch = Some fl \<and>
      dates cleaned_batch Date_start_contract = DatetimeCol UTC ss \<and>
      dates cleaned_batch Date_last_renewal = DatetimeCol UTC rs \<and>
      ss ! 0 = Some s \<and> rs ! 0 = Some r \<and> r < s \<and> fl ! 0 = 1)"
proof -
  have i: "0 < nrows raw_batch" by (simp add: nrows_raw_batch)
  from flag_start_after_renewal [OF clean_raw_batch well_formed_raw_batch i]
  obtain fl ss rs where fl: "flag_invalid_start_vs_last cleaned_batch = Some fl"
    and ss: "dates cleaned_batch Date_start_contract = DatetimeCol UTC ss"
    and rs: "dates cleaned_batch Date_last_renewal = DatetimeCol UTC rs"
    and iff: "fl ! 0 = 1 \<longleftrightarrow> (\<exists>s r. ss ! 0 = Some s \<and> rs ! 0 = Some r \<and> r < s)"
    by blast
  from ss have s: "ss ! 0 = Some 1622505600000000000" by (auto simp: cleaned_batch_def)
  from rs have r: "rs ! 0 = Some 1609459200000000000" by (auto simp: cleaned_batch_def)
  from iff s r have "fl ! 0 = 1" by simp
  with fl ss rs s r i show ?thesis
    using clean_raw_batch well_formed_raw_batch by force
qed

section \<open>Running \<open>clean_data\<close> on its own output\<close>

text \<open>
  C8, as the code has it. \<open>clean_data\<close> cannot be run on a frame it has written: the date
  columns of that frame carry the UTC tag, and line 60 compares the first of them with a
  naive timestamp. The second run ends with \<open>TypeError\<close> and writes nothing, whatever the
  parser.
\<close>

theorem clean_data_twice:
  assumes "clean_data parse df = Inr df'"
  shows "clean_data parse' df' = Inl TypeError"
proof -
  from clean_data_Inr(4) [OF assms] obtain ns where
    ns: "astype_int (replace_val (PStr ''00/01/1900'') (PInt 0) (Distribution_channel df)) = Inr ns"
    and out: "Distribution_channel df' = map PInt ns"
    by auto
  have ch: "fix_distribution_channel (fill_length (fill_type_fuel df')) =
        Inr ((fill_length (fill_type_fuel df'))\<lparr>Distribution_channel := map PInt ns\<rparr>)"
    by (simp add: fix_distribution_channel_def out replace_val_PInt astype_int_again [OF ns])
  have "dates df' Date_start_contract = DatetimeCol UTC (dates_out parse df Date_start_contract)"
    by (rule clean_data_Inr(5) [OF assms])
  then have "normalize_dates parse' ((fill_length (fill_type_fuel df'))\<lparr>Distribution_channel := map PInt ns\<rparr>)
      = Inl TypeError"
    by (simp add: normalize_dates_def date_columns_def normalize_col_eq norm_col_UTC)
  with ch show ?thesis by (simp add: clean_data_def)
qed

theorem clean_data_twice_witness:
  "clean_data sample_parse raw_batch = Inr cleaned_batch \<and>
   clean_data (\<lambda>s. None) cleaned_batch = Inl TypeError"
  using clean_data_twice [OF clean_raw_batch, of "\<lambda>s. None"] clean_raw_batch by simp

text \<open>
  The sample batch is cleaned; cleaning the result again raises \<open>TypeError\<close> and so does
  not return the result unchanged.
\<close>

theorem clean_data_twice_counterexample:
  "clean_data sample_parse raw_batch = Inr cleaned_batch \<and>
   clean_data sample_parse cleaned_batch = Inl TypeError \<and>
   clean_data sample_parse cleaned_batch \<noteq> Inr cleaned_batch"
  by (simp add: clean_raw_batch clean_cleaned_batch)

end
